theory Spec2Isabelle
  imports Complex_Main
begin

section \<open>Interactive video player: data model\<close>

text \<open>
  The player is the React component \<open>InteractiveVideoPlayer\<close>. Its configuration objects are
  plain JavaScript objects read field by field, so every optional field is an \<open>option\<close>:
  \<open>None\<close> is a field that is absent (\<open>undefined\<close>) or, for a numeric field, not of type
  number. Field names carry a prefix because \<open>end\<close>, \<open>start\<close> and \<open>id\<close> occur in several
  object shapes.
\<close>

subsection \<open>JavaScript numbers\<close>

text \<open>
  Seconds are JavaScript numbers, that is IEEE 754 doubles. Every finite double is a
  rational, so seconds are modelled by \<open>rat\<close>; comparisons of doubles are then the
  comparisons of rationals. An addition of the source is the exact sum rounded to the
  nearest double, ties to the even significand (\<open>js_add\<close>), and a decimal literal of the
  source is the double nearest to it (\<open>round_double 0.05\<close>). A rational \<open>x\<close> is a double
  when \<open>round_double x = x\<close>; a rational that is not one stands for no number of the
  program. \<open>NaN\<close> is an absent value where it can occur; an overflow to \<open>Infinity\<close>, beyond
  about \<open>1.8e308\<close>, is outside the model.
\<close>

text \<open>The number of binary digits of a natural number.\<close>

fun bitLength :: "nat \<Rightarrow> nat" where
  "bitLength 0 = 0"
| "bitLength (Suc n) = Suc (bitLength (Suc n div 2))"

definition pow2 :: "int \<Rightarrow> rat" where
  "pow2 k = (if 0 \<le> k then 2 ^ nat k else 1 / 2 ^ nat (- k))"

text \<open>The binary exponent of a positive rational: \<open>pow2 (binade x) \<le> x < pow2 (binade x + 1)\<close>.\<close>

definition binade :: "rat \<Rightarrow> int" where
  "binade x =
     (if 1 \<le> x then int (bitLength (nat \<lfloor>x\<rfloor>)) - 1
      else - int (bitLength (nat (\<lceil>1 / x\<rceil> - 1))))"

definition roundHalfEven :: "rat \<Rightarrow> int" where
  "roundHalfEven m =
     (let f = \<lfloor>m\<rfloor>; r = m - of_int f
      in if r < 1 / 2 then f else if 1 / 2 < r then f + 1 else if even f then f else f + 1)"

text \<open>Rounding to a double: 53 significant bits, the unit in the last place bounded below
  by that of the subnormal numbers.\<close>

definition round_double :: "rat \<Rightarrow> rat" where
  "round_double x =
     (if x = 0 then 0
      else let ulp = pow2 (max (binade \<bar>x\<bar>) (- 1022) - 52)
           in sgn x * of_int (roundHalfEven (\<bar>x\<bar> / ulp)) * ulp)"

definition js_add :: "rat \<Rightarrow> rat \<Rightarrow> rat" where
  "js_add x y = round_double (x + y)"

subsection \<open>Configuration and session\<close>

record source =
  src_id :: string
  src_src :: string

text \<open>Action: \<open>{ type, to?, start?, end?, sourceId?, startAt? }\<close>. The header comment of the
  source documents \<open>to\<close>; \<open>performAction\<close> reads \<open>start\<close> and the boundary watch reads \<open>end\<close>.\<close>

record action =
  act_type :: string
  act_to :: "rat option"
  act_start :: "rat option"
  act_end :: "rat option"
  act_sourceId :: "string option"
  act_startAt :: "rat option"

text \<open>Hotspot: \<open>{ id, visible?, action, onEnd? }\<close> (label and rect are presentation only).\<close>

record hotspot =
  hs_id :: string
  hs_visible :: "bool option"
  hs_action :: "action option"
  hs_onEnd :: "rat option"

record segment =
  seg_id :: string
  seg_start :: rat
  seg_end :: rat
  requireChoice :: bool
  loopOnNoChoice :: bool
  maxLoops :: "nat option"
  defaultAction :: "action option"
  hotspots :: "hotspot list"

record config =
  segments :: "segment list"

text \<open>The \<open>video\<close> element behind \<open>videoRef\<close>: its playback position, its duration (\<open>None\<close> is
  \<open>NaN\<close>, no duration available), whether it is paused, and whether the browser lets
  \<open>play()\<close> succeed (an autoplay restriction makes the promise reject).\<close>

record video =
  v_currentTime :: rat
  v_duration :: "rat option"
  v_paused :: bool
  v_playAllowed :: bool

datatype error = NotAllowedError | TypeError

text \<open>
  What a property of \<open>loopCountBySeg\<close> can hold. The state starts as the plain object \<open>{}\<close>
  and is only written with \<open>(loopCountBySeg[seg.id] || 0) + 1\<close>: for an ordinary id that is
  a number, and for an id that names a member every plain object inherits it is the text
  of that member with ones appended.
\<close>

datatype jsval = JNum nat | JStr string

text \<open>The objects handed to the \<open>onEvent\<close> hook, one constructor per \<open>type\<close> string of the
  source, with the payload fields as arguments.\<close>

datatype event =
    SegmentEnter string
  | SegmentLoop string jsval
  | SegmentAutoselect string
  | SourceSwitch string rat
  | HotspotClick string "string option"

fun event_type :: "event \<Rightarrow> string" where
  "event_type (SegmentEnter _) = ''segment.enter''"
| "event_type (SegmentLoop _ _) = ''segment.loop''"
| "event_type (SegmentAutoselect _) = ''segment.autoselect''"
| "event_type (SourceSwitch _ _) = ''source.switch''"
| "event_type (HotspotClick _ _) = ''hotspot.click''"

text \<open>
  Session state: the \<open>useState\<close> cells of the component, the video element, the log of the
  calls of \<open>onEvent\<close> (oldest first) and the callbacks that \<open>switchSource\<close> has handed to
  \<open>setTimeout\<close> and that have not run yet (each is determined by its \<open>startAt\<close>).
\<close>

record player =
  video :: "video option"
  currentSourceId :: string
  ready :: bool
  currentTime :: rat
  activeSegmentId :: "string option"
  activeHotspot :: "hotspot option"
  loopCountBySeg :: "string \<rightharpoonup> jsval"
  userChoseInSegment :: bool
  showOverlays :: bool
  events :: "event list"
  timeouts :: "rat list"

section \<open>Operations\<close>

definition clamp :: "rat \<Rightarrow> rat \<Rightarrow> rat \<Rightarrow> rat" where
  "clamp v mn mx = max mn (min mx v)"

text \<open>JavaScript truthiness of an optional number (\<open>undefined\<close>, \<open>NaN\<close> and \<open>0\<close> are falsy) and
  of an optional string (\<open>undefined\<close>, \<open>null\<close> and the empty string are falsy).\<close>

definition truthy_num :: "rat option \<Rightarrow> bool" where
  "truthy_num x = (case x of None \<Rightarrow> False | Some r \<Rightarrow> r \<noteq> 0)"

definition truthy_str :: "string option \<Rightarrow> bool" where
  "truthy_str x = (case x of None \<Rightarrow> False | Some t \<Rightarrow> t \<noteq> [])"

text \<open>\<open>sources.find((s) => s.id === currentSourceId) || sources[0]\<close>\<close>

definition currentSource :: "source list \<Rightarrow> player \<Rightarrow> source option" where
  "currentSource sources s =
     (case find (\<lambda>x. src_id x = currentSourceId s) sources of
        Some x \<Rightarrow> Some x
      | None \<Rightarrow> (case sources of [] \<Rightarrow> None | x # _ \<Rightarrow> Some x))"

text \<open>The resolver:
  \<open>config.segments.find((seg) => currentTime >= seg.start && currentTime <= seg.end) || null\<close>\<close>

definition activeSegment :: "segment list \<Rightarrow> rat \<Rightarrow> segment option" where
  "activeSegment segs t = find (\<lambda>seg. t \<ge> seg_start seg \<and> t \<le> seg_end seg) segs"

definition onEvent :: "event \<Rightarrow> player \<Rightarrow> player" where
  "onEvent e s = s\<lparr>events := events s @ [e]\<rparr>"

text \<open>\<open>v.play()\<close> returns a promise that rejects when playback may not start;
  \<open>v.play().catch(() => {})\<close> swallows the rejection.\<close>

definition play :: "video \<Rightarrow> error + video" where
  "play v = (if v_playAllowed v then Inr (v\<lparr>v_paused := False\<rparr>) else Inl NotAllowedError)"

definition play_catch :: "video \<Rightarrow> video" where
  "play_catch v = (case play v of Inr v' \<Rightarrow> v' | Inl _ \<Rightarrow> v)"

text \<open>
  The assignment \<open>v.currentTime = t\<close> as the media element carries it out: without metadata
  (no duration) the value is kept as the position to start from; with metadata the element
  seeks, and a seek beyond the end of the medium goes to the end, one before its beginning
  to the beginning.
\<close>

definition setCurrentTime :: "rat \<Rightarrow> video \<Rightarrow> video" where
  "setCurrentTime t v =
     v\<lparr>v_currentTime := (case v_duration v of None \<Rightarrow> t | Some d \<Rightarrow> max 0 (min d t))\<rparr>"

text \<open>The value \<open>t\<close> that \<open>seekTo\<close> computes:
  \<open>clamp(seconds, 0, v.duration || seconds + 0.01)\<close>.\<close>

definition seekTarget :: "rat \<Rightarrow> video \<Rightarrow> rat" where
  "seekTarget seconds v =
     clamp seconds 0
       (if truthy_num (v_duration v) then (case v_duration v of Some d \<Rightarrow> d | None \<Rightarrow> 0)
        else js_add seconds (round_double 0.01))"

text \<open>\<open>seekTo(seconds)\<close> for a numeric argument: the value above is assigned to
  \<open>v.currentTime\<close>, then \<open>play\<close>.\<close>

definition seekTo :: "rat \<Rightarrow> player \<Rightarrow> player" where
  "seekTo seconds s =
     (case video s of
        None \<Rightarrow> s
      | Some v \<Rightarrow> s\<lparr>video := Some (play_catch (setCurrentTime (seekTarget seconds v) v))\<rparr>)"

text \<open>\<open>switchSource(sourceId, startAt)\<close>: two state updates, a deferred callback, one event.\<close>

definition switchSource :: "string \<Rightarrow> rat \<Rightarrow> player \<Rightarrow> player" where
  "switchSource sourceId startAt s =
     onEvent (SourceSwitch sourceId startAt)
       (s\<lparr>currentSourceId := sourceId, ready := False, timeouts := timeouts s @ [startAt]\<rparr>)"

text \<open>\<open>performAction(action)\<close>. The first pair pattern is the test
  \<open>action.type === 'seek' && typeof action.start === 'number'\<close>, the second one is
  \<open>action.type === 'switchSource' && action.sourceId\<close>; \<open>action.startAt ?? 0\<close> is the
  \<open>case\<close> on \<open>act_startAt\<close>.\<close>

definition performAction :: "action option \<Rightarrow> player \<Rightarrow> player" where
  "performAction action s =
     (case action of
        None \<Rightarrow> s
      | Some a \<Rightarrow>
          (case (act_type a = ''seek'', act_start a) of
             (True, Some st) \<Rightarrow> seekTo st s
           | _ \<Rightarrow>
               (case (act_type a = ''switchSource'' \<and> truthy_str (act_sourceId a), act_sourceId a) of
                  (True, Some sid) \<Rightarrow>
                    switchSource sid (case act_startAt a of None \<Rightarrow> 0 | Some x \<Rightarrow> x) s
                | _ \<Rightarrow> s)))"

text \<open>The callback of \<open>setTimeout\<close> in \<open>switchSource\<close>: \<open>v.currentTime = startAt\<close> (the code
  does not clamp here) and \<open>play\<close>.\<close>

definition runTimeout :: "player \<Rightarrow> player" where
  "runTimeout s =
     (case timeouts s of
        [] \<Rightarrow> s
      | startAt # rest \<Rightarrow>
          (case video s of
             None \<Rightarrow> s\<lparr>timeouts := rest\<rparr>
           | Some v \<Rightarrow>
               s\<lparr>timeouts := rest, video := Some (play_catch (setCurrentTime startAt v))\<rparr>))"

text \<open>
  The members that the plain object \<open>{}\<close> inherits from \<open>Object.prototype\<close>, each with the
  string it turns into when a number is added to it: the functions print as native code
  (written here as V8 prints them; the spacing differs between engines), \<open>__proto__\<close> is
  the prototype object itself. All that the player depends on is that none of these texts
  is empty and none is a numeral.
\<close>

definition nativeFunction :: "string \<Rightarrow> string" where
  "nativeFunction name = ''function '' @ name @ ''() { [native code] }''"

definition objectPrototype :: "(string \<times> string) list" where
  "objectPrototype =
     [(''constructor'', nativeFunction ''Object''),
      (''__defineGetter__'', nativeFunction ''__defineGetter__''),
      (''__defineSetter__'', nativeFunction ''__defineSetter__''),
      (''hasOwnProperty'', nativeFunction ''hasOwnProperty''),
      (''__lookupGetter__'', nativeFunction ''__lookupGetter__''),
      (''__lookupSetter__'', nativeFunction ''__lookupSetter__''),
      (''isPrototypeOf'', nativeFunction ''isPrototypeOf''),
      (''propertyIsEnumerable'', nativeFunction ''propertyIsEnumerable''),
      (''toString'', nativeFunction ''toString''),
      (''valueOf'', nativeFunction ''valueOf''),
      (''__proto__'', ''[object Object]''),
      (''toLocaleString'', nativeFunction ''toLocaleString'')]"

text \<open>The property read \<open>obj[key]\<close>: an own property, else an inherited member, else
  \<open>undefined\<close>.\<close>

definition getProperty :: "(string \<rightharpoonup> jsval) \<Rightarrow> string \<Rightarrow> jsval option" where
  "getProperty obj key =
     (case obj key of
        Some v \<Rightarrow> Some v
      | None \<Rightarrow> map_option JStr (map_of objectPrototype key))"

text \<open>\<open>x || 0\<close>: \<open>undefined\<close>, \<open>0\<close> and the empty string are falsy.\<close>

definition orZero :: "jsval option \<Rightarrow> jsval" where
  "orZero x =
     (case x of
        None \<Rightarrow> JNum 0
      | Some (JNum n) \<Rightarrow> JNum n
      | Some (JStr t) \<Rightarrow> if t = [] then JNum 0 else JStr t)"

text \<open>\<open>x + 1\<close>: a sum of numbers, or the text with \<open>1\<close> appended.\<close>

definition addOne :: "jsval \<Rightarrow> jsval" where
  "addOne x = (case x of JNum n \<Rightarrow> JNum (n + 1) | JStr t \<Rightarrow> JStr (t @ ''1''))"

text \<open>\<open>loops >= seg.maxLoops\<close>: a text that is not a numeral converts to \<open>NaN\<close>, and every
  comparison with \<open>NaN\<close> is false.\<close>

definition reachesMax :: "jsval \<Rightarrow> nat \<Rightarrow> bool" where
  "reachesMax x m = (case x of JNum n \<Rightarrow> m \<le> n | JStr t \<Rightarrow> False)"

text \<open>\<open>loopCountBySeg[seg.id] || 0\<close>\<close>

definition loopCount :: "player \<Rightarrow> string \<Rightarrow> jsval" where
  "loopCount s sid = orZero (getProperty (loopCountBySeg s) sid)"

text \<open>The exit branch of the segment effect for the segment found under \<open>activeSegmentId\<close>.\<close>

definition exitPolicy :: "segment \<Rightarrow> player \<Rightarrow> player" where
  "exitPolicy seg s =
     (if requireChoice seg \<and> loopOnNoChoice seg \<and> \<not> userChoseInSegment s then
        let loops = addOne (loopCount s (seg_id seg));
            s1 = s\<lparr>loopCountBySeg := (loopCountBySeg s)(seg_id seg \<mapsto> loops)\<rparr>;
            s2 = onEvent (SegmentLoop (seg_id seg) loops) s1;
            reachedMax = (case maxLoops seg of None \<Rightarrow> False | Some m \<Rightarrow> reachesMax loops m)
        in if reachedMax \<and> defaultAction seg \<noteq> None
           then onEvent (SegmentAutoselect (seg_id seg)) (performAction (defaultAction seg) s2)
           else seekTo (seg_start seg) s2
      else s)"

text \<open>The segment entry/exit effect (dependencies \<open>[activeSegment, currentTime]\<close>).\<close>

definition segmentEffect :: "config \<Rightarrow> player \<Rightarrow> player" where
  "segmentEffect cfg s =
     (case activeSegment (segments cfg) (currentTime s) of
        Some seg \<Rightarrow>
          if activeSegmentId s \<noteq> Some (seg_id seg) then
            onEvent (SegmentEnter (seg_id seg))
              (s\<lparr>activeSegmentId := Some (seg_id seg), userChoseInSegment := False,
                 showOverlays := True\<rparr>)
          else s
      | None \<Rightarrow>
          if truthy_str (activeSegmentId s) then
            let s1 = (case find (\<lambda>g. Some (seg_id g) = activeSegmentId s) (segments cfg) of
                        Some seg \<Rightarrow> exitPolicy seg s
                      | None \<Rightarrow> s)
            in s1\<lparr>activeSegmentId := None, showOverlays := False\<rparr>
          else s)"

text \<open>
  The boundary-watch effect (dependencies \<open>[currentTime, activeHotspot]\<close>); its test is
  \<open>activeHotspot.action?.end && currentTime > activeHotspot?.action.end + 0.05\<close>, with the
  sum taken in doubles. With no \<open>onEnd\<close> on the hotspot, \<open>seekTo(undefined)\<close> computes \<open>NaN\<close>
  and the assignment to \<open>v.currentTime\<close> throws a \<open>TypeError\<close>.
\<close>

definition chainedEffect :: "player \<Rightarrow> error + player" where
  "chainedEffect s =
     (case activeHotspot s of
        None \<Rightarrow> Inr s
      | Some h \<Rightarrow>
          (case (case hs_action h of None \<Rightarrow> None | Some a \<Rightarrow> act_end a) of
             None \<Rightarrow> Inr s
           | Some e \<Rightarrow>
               if e \<noteq> 0 \<and> currentTime s > js_add e (round_double 0.05) then
                 let s1 = s\<lparr>activeHotspot := None\<rparr>
                 in (case hs_onEnd h of
                       Some target \<Rightarrow> Inr (seekTo target s1)
                     | None \<Rightarrow> if video s1 = None then Inr s1 else Inl TypeError)
               else Inr s))"

text \<open>The handler \<open>onHotspotClick(hotspot, segment)\<close>.\<close>

definition onHotspotClick :: "hotspot \<Rightarrow> segment option \<Rightarrow> player \<Rightarrow> player" where
  "onHotspotClick h seg s =
     (let s1 = s\<lparr>userChoseInSegment := True, showOverlays := False\<rparr>;
          s2 = onEvent (HotspotClick (hs_id h) (map_option seg_id seg)) s1;
          s3 = performAction (hs_action h) s2
      in s3\<lparr>activeHotspot := Some h\<rparr>)"

text \<open>
  A click is a handler followed by the render it causes. Of the two effects only the
  boundary watch depends on \<open>activeHotspot\<close>; it runs when that cell has changed, with the
  \<open>currentTime\<close> cell still holding the time of the last \<open>timeupdate\<close>. Equality of
  hotspots stands for the identity of the configuration objects.
\<close>

definition click :: "hotspot \<Rightarrow> segment option \<Rightarrow> player \<Rightarrow> error + player" where
  "click h seg s =
     (let s1 = onHotspotClick h seg s
      in if activeHotspot s = Some h then Inr s1 else chainedEffect s1)"

text \<open>The buttons that are rendered, and that the digit keys address:
  \<open>activeSegment && showOverlays\<close>, then \<open>hotspots.filter((h) => h.visible !== false)\<close>.\<close>

definition visibleHotspots :: "config \<Rightarrow> player \<Rightarrow> hotspot list" where
  "visibleHotspots cfg s =
     (case activeSegment (segments cfg) (currentTime s) of
        None \<Rightarrow> []
      | Some seg \<Rightarrow>
          if showOverlays s then filter (\<lambda>h. hs_visible h \<noteq> Some False) (hotspots seg) else [])"

definition pointerClick :: "config \<Rightarrow> nat \<Rightarrow> player \<Rightarrow> error + player" where
  "pointerClick cfg n s =
     (if n < length (visibleHotspots cfg s)
      then click (visibleHotspots cfg s ! n) (activeSegment (segments cfg) (currentTime s)) s
      else Inr s)"

text \<open>
  When the overlay of a segment stops being rendered, \<open>AnimatePresence\<close> keeps it mounted
  while it fades out, and its buttons still call \<open>onHotspotClick\<close> with the hotspot and the
  segment of the render that drew them. The model does not keep track of the fade: it
  admits a click on the \<open>n\<close>-th visible hotspot of the \<open>i\<close>-th configured segment at any
  time, which covers every click the component can receive this way.
\<close>

definition fadeClick :: "config \<Rightarrow> nat \<Rightarrow> nat \<Rightarrow> player \<Rightarrow> error + player" where
  "fadeClick cfg i n s =
     (if i < length (segments cfg) then
        let seg = segments cfg ! i;
            hs = filter (\<lambda>h. hs_visible h \<noteq> Some False) (hotspots seg)
        in if n < length hs then click (hs ! n) (Some seg) s else Inr s
      else Inr s)"

text \<open>\<open>handleKey\<close>: a key \<open>'1'\<close> .. \<open>'9'\<close> selects the hotspot at index \<open>Number(e.key) - 1\<close>.\<close>

definition digitIndex :: "char \<Rightarrow> nat option" where
  "digitIndex c =
     (if c = CHR ''1'' then Some 0 else if c = CHR ''2'' then Some 1
      else if c = CHR ''3'' then Some 2 else if c = CHR ''4'' then Some 3
      else if c = CHR ''5'' then Some 4 else if c = CHR ''6'' then Some 5
      else if c = CHR ''7'' then Some 6 else if c = CHR ''8'' then Some 7
      else if c = CHR ''9'' then Some 8 else None)"

definition handleKey :: "config \<Rightarrow> char \<Rightarrow> player \<Rightarrow> error + player" where
  "handleKey cfg c s =
     (case digitIndex c of
        None \<Rightarrow> Inr s
      | Some idx \<Rightarrow> pointerClick cfg idx s)"

text \<open>
  The \<open>timeupdate\<close> listener \<open>setCurrentTime(v.currentTime || 0)\<close> and the render it causes:
  no render when the cell keeps its value, otherwise both effects in the order of their
  declaration.
\<close>

definition onTimeUpdate :: "config \<Rightarrow> player \<Rightarrow> error + player" where
  "onTimeUpdate cfg s =
     (case video s of
        None \<Rightarrow> Inr s
      | Some v \<Rightarrow>
          if v_currentTime v = currentTime s then Inr s
          else (case chainedEffect (s\<lparr>currentTime := v_currentTime v\<rparr>) of
                  Inl e \<Rightarrow> Inl e
                | Inr s1 \<Rightarrow> Inr (segmentEffect cfg s1)))"

text \<open>
  What can happen to a mounted player: the two media events, pointer and keyboard input
  on the rendered overlay, a click on a button of an overlay that is fading out, a pending
  timeout, and the media element moving its own playback position (playing on, or the
  viewer scrubbing).
\<close>

datatype input =
    TimeUpdate
  | LoadedMetadata
  | Pointer nat
  | KeyDown char
  | FadeClick nat nat
  | Timeout
  | Playhead rat

definition step :: "config \<Rightarrow> input \<Rightarrow> player \<Rightarrow> error + player" where
  "step cfg i s =
     (case i of
        TimeUpdate \<Rightarrow> onTimeUpdate cfg s
      | LoadedMetadata \<Rightarrow> Inr (s\<lparr>ready := True\<rparr>)
      | Pointer n \<Rightarrow> pointerClick cfg n s
      | KeyDown c \<Rightarrow> handleKey cfg c s
      | FadeClick i n \<Rightarrow> fadeClick cfg i n s
      | Timeout \<Rightarrow> Inr (runTimeout s)
      | Playhead t \<Rightarrow>
          Inr (s\<lparr>video := map_option (\<lambda>v. v\<lparr>v_currentTime := t\<rparr>) (video s)\<rparr>))"

fun run :: "config \<Rightarrow> input list \<Rightarrow> player \<Rightarrow> error + player" where
  "run cfg [] s = Inr s"
| "run cfg (i # is) s = (case step cfg i s of Inl e \<Rightarrow> Inl e | Inr s1 \<Rightarrow> run cfg is s1)"

text \<open>
  Construction: the initial values of the \<open>useState\<close> cells, then the first render, in which
  the boundary watch finds no hotspot and the segment effect sees time \<open>0\<close>. The component
  body has no \<open>throw\<close> and reads the configuration only through the functions above.
\<close>

definition initialPlayer :: "string \<Rightarrow> video \<Rightarrow> player" where
  "initialPlayer initialSourceId v =
     \<lparr>video = Some v, currentSourceId = initialSourceId, ready = False, currentTime = 0,
      activeSegmentId = None, activeHotspot = None, loopCountBySeg = Map.empty,
      userChoseInSegment = False, showOverlays = True, events = [], timeouts = []\<rparr>"

definition mount :: "string \<Rightarrow> config \<Rightarrow> video \<Rightarrow> player" where
  "mount initialSourceId cfg v = segmentEffect cfg (initialPlayer initialSourceId v)"

section \<open>Configurations used in the checks\<close>

text \<open>The three action shapes that occur in the repository: \<open>{type: 'seek', start, end?}\<close>
  (the hotspots of \<open>App.jsx\<close>), \<open>{type: 'seek', to}\<close> (the header comment and the
  \<open>defaultAction\<close>s of \<open>App.jsx\<close>) and \<open>{type: 'switchSource', sourceId, startAt?}\<close>.\<close>

definition seekStart :: "rat \<Rightarrow> rat option \<Rightarrow> action" where
  "seekStart st en = \<lparr>act_type = ''seek'', act_to = None, act_start = Some st, act_end = en,
     act_sourceId = None, act_startAt = None\<rparr>"

definition seekToShape :: "rat \<Rightarrow> action" where
  "seekToShape t = \<lparr>act_type = ''seek'', act_to = Some t, act_start = None, act_end = None,
     act_sourceId = None, act_startAt = None\<rparr>"

definition switchTo :: "string \<Rightarrow> rat option \<Rightarrow> action" where
  "switchTo sid st = \<lparr>act_type = ''switchSource'', act_to = None, act_start = None,
     act_end = None, act_sourceId = Some sid, act_startAt = st\<rparr>"

text \<open>\<open>exampleSources\<close> and \<open>exampleConfig\<close> of \<open>App.jsx\<close>.\<close>

definition exampleSources :: "source list" where
  "exampleSources = [\<lparr>src_id = ''main'', src_src = ''car.mp4''\<rparr>]"

definition toA1 :: hotspot where
  "toA1 = \<lparr>hs_id = ''toA'', hs_visible = None, hs_action = Some (seekStart 14 (Some 16)),
     hs_onEnd = Some 67\<rparr>"

definition toB1 :: hotspot where
  "toB1 = \<lparr>hs_id = ''toB'', hs_visible = None, hs_action = Some (seekStart 46 None),
     hs_onEnd = Some 67\<rparr>"

definition choice1 :: segment where
  "choice1 = \<lparr>seg_id = ''choice-1'', seg_start = 10, seg_end = 13, requireChoice = True,
     loopOnNoChoice = True, maxLoops = None, defaultAction = Some (seekToShape 14),
     hotspots = [toA1, toB1]\<rparr>"

definition toA2 :: hotspot where
  "toA2 = \<lparr>hs_id = ''toA'', hs_visible = None, hs_action = Some (seekStart 73 (Some 113)),
     hs_onEnd = Some 125\<rparr>"

definition toB2 :: hotspot where
  "toB2 = \<lparr>hs_id = ''toB'', hs_visible = None, hs_action = Some (seekStart 114 None),
     hs_onEnd = Some 125\<rparr>"

definition choice2 :: segment where
  "choice2 = \<lparr>seg_id = ''choice-2'', seg_start = 69, seg_end = 72, requireChoice = True,
     loopOnNoChoice = True, maxLoops = None, defaultAction = Some (seekToShape 14),
     hotspots = [toA2, toB2]\<rparr>"

definition exampleConfig :: config where
  "exampleConfig = \<lparr>segments = [choice1, choice2]\<rparr>"

text \<open>A video element with metadata loaded (two minutes long) that is allowed to play.\<close>

definition loadedVideo :: video where
  "loadedVideo = \<lparr>v_currentTime = 0, v_duration = Some 120, v_paused = False,
     v_playAllowed = True\<rparr>"

text \<open>\<open>exampleConfig\<close> with the line \<open>maxLoops: 2\<close> of its first segment in force (it is
  commented out in \<open>App.jsx\<close>); the \<open>defaultAction\<close> keeps the documented shape
  \<open>{type: 'seek', to: 14}\<close>.\<close>

definition exampleConfigMaxLoops :: config where
  "exampleConfigMaxLoops = \<lparr>segments = [choice1\<lparr>maxLoops := Some 2\<rparr>, choice2]\<rparr>"

text \<open>A choice segment that loops, and a plain segment that begins where the first one ends.\<close>

definition segA :: segment where
  "segA = \<lparr>seg_id = ''a'', seg_start = 10, seg_end = 13, requireChoice = True,
     loopOnNoChoice = True, maxLoops = None, defaultAction = None, hotspots = []\<rparr>"

definition segB :: segment where
  "segB = \<lparr>seg_id = ''b'', seg_start = 13, seg_end = 20, requireChoice = False,
     loopOnNoChoice = False, maxLoops = None, defaultAction = None, hotspots = []\<rparr>"

text \<open>A hotspot shown from 20s to 25s that replays the range from 5s to 10s and then goes
  on at 30s: a ranged seek that jumps backwards.\<close>

definition replayHotspot :: hotspot where
  "replayHotspot = \<lparr>hs_id = ''replay'', hs_visible = None,
     hs_action = Some (seekStart 5 (Some 10)), hs_onEnd = Some 30\<rparr>"

definition replayConfig :: config where
  "replayConfig = \<lparr>segments = [\<lparr>seg_id = ''recap'', seg_start = 20, seg_end = 25,
     requireChoice = False, loopOnNoChoice = False, maxLoops = None, defaultAction = None,
     hotspots = [replayHotspot]\<rparr>]\<rparr>"



text \<open>A configuration with every defect at once: two segments with the same id, two
  hotspots with the same id, a segment that ends before it starts, and a hotspot that
  switches to a source \<open>ghost\<close> that \<open>exampleSources\<close> does not have.\<close>

definition ghostHotspot :: hotspot where
  "ghostHotspot = \<lparr>hs_id = ''x'', hs_visible = None,
     hs_action = Some (switchTo ''ghost'' None), hs_onEnd = None\<rparr>"

definition dupFirst :: segment where
  "dupFirst = \<lparr>seg_id = ''dup'', seg_start = 0, seg_end = 3, requireChoice = False,
     loopOnNoChoice = False, maxLoops = None, defaultAction = None,
     hotspots = [ghostHotspot, ghostHotspot]\<rparr>"

definition dupSecond :: segment where
  "dupSecond = \<lparr>seg_id = ''dup'', seg_start = 9, seg_end = 4, requireChoice = False,
     loopOnNoChoice = False, maxLoops = None, defaultAction = None, hotspots = []\<rparr>"

definition badConfig :: config where
  "badConfig = \<lparr>segments = [dupFirst, dupSecond]\<rparr>"

text \<open>A looping choice segment whose id, \<open>constructor\<close>, names a member that every plain
  object inherits; its default action is due after one loop.\<close>

definition constructorConfig :: config where
  "constructorConfig = \<lparr>segments = [\<lparr>seg_id = ''constructor'', seg_start = 10, seg_end = 13,
     requireChoice = True, loopOnNoChoice = True, maxLoops = Some 1,
     defaultAction = Some (seekStart 14 None), hotspots = []\<rparr>]\<rparr>"

section \<open>An invariant and an order for the loop counters\<close>

text \<open>
  Own properties of \<open>loopCountBySeg\<close> are numbers under ordinary keys and non-empty texts
  under the inherited names. Between two states of the object, the value read under a key
  has grown when it is a number that has not become smaller, or a text that has only been
  extended; these are the cases in which JavaScript itself evaluates \<open>before <= after\<close> to
  true.
\<close>

definition counterKinds :: "(string \<rightharpoonup> jsval) \<Rightarrow> bool" where
  "counterKinds obj =
     (\<forall>key. case obj key of
              None \<Rightarrow> True
            | Some (JNum n) \<Rightarrow> map_of objectPrototype key = None
            | Some (JStr t) \<Rightarrow> map_of objectPrototype key \<noteq> None \<and> t \<noteq> [])"

definition counterGrew :: "string \<Rightarrow> (string \<rightharpoonup> jsval) \<Rightarrow> (string \<rightharpoonup> jsval) \<Rightarrow> bool" where
  "counterGrew key before after =
     (case map_of objectPrototype key of
        None \<Rightarrow>
          (\<exists>m n. orZero (getProperty before key) = JNum m \<and>
                 orZero (getProperty after key) = JNum n \<and> m \<le> n)
      | Some _ \<Rightarrow>
          (\<exists>x y. orZero (getProperty before key) = JStr x \<and>
                 orZero (getProperty after key) = JStr (x @ y)))"

section \<open>Unfolding the model on concrete inputs\<close>

lemma bitLength_numeral [simp]:
  "bitLength 1 = 1"
  "bitLength (numeral Num.One) = 1"
  "bitLength (numeral (Num.Bit0 n)) = Suc (bitLength (numeral n))"
  "bitLength (numeral (Num.Bit1 n)) = Suc (bitLength (numeral n))"
proof -
  have s: "bitLength k = Suc (bitLength (k div 2))" if "0 < k" for k
    using that by (cases k) simp_all
  show "bitLength 1 = 1" by (simp add: s)
  show "bitLength (numeral Num.One) = 1" by (simp add: s)
  show "bitLength (numeral (Num.Bit0 n)) = Suc (bitLength (numeral n))" by (subst s) simp_all
  show "bitLength (numeral (Num.Bit1 n)) = Suc (bitLength (numeral n))" by (subst s) simp_all
qed

lemma floor_rat_numeral_div [simp]:
  "\<lfloor>numeral a / numeral b :: rat\<rfloor> = numeral a div numeral b"
  by (metis floor_divide_of_int_eq of_int_numeral)

lemma ceiling_rat_numeral_div [simp]:
  "\<lceil>numeral a / numeral b :: rat\<rceil> = - (- numeral a div numeral b)"
  unfolding ceiling_def
  by (metis floor_divide_of_int_eq of_int_numeral of_int_minus minus_divide_left)

lemmas double_defs = js_add_def round_double_def binade_def roundHalfEven_def pow2_def Let_def

lemmas run_defs = step_def onTimeUpdate_def chainedEffect_def segmentEffect_def exitPolicy_def
  activeSegment_def performAction_def seekTo_def seekTarget_def setCurrentTime_def
  switchSource_def onEvent_def play_catch_def play_def clamp_def truthy_num_def truthy_str_def
  loopCount_def getProperty_def orZero_def addOne_def reachesMax_def objectPrototype_def
  nativeFunction_def mount_def initialPlayer_def pointerClick_def handleKey_def click_def
  onHotspotClick_def visibleHotspots_def fadeClick_def runTimeout_def digitIndex_def
  double_defs

lemmas example_defs = exampleConfig_def choice1_def choice2_def toA1_def toB1_def toA2_def
  toB2_def seekStart_def seekToShape_def switchTo_def loadedVideo_def exampleSources_def

text \<open>The sums of the source in doubles. At the range ends of the configurations above the
  sum with \<open>0.05\<close> is the double next to the decimal value; at range end \<open>0.1\<close> it is
  \<open>0.15000000000000002\<close>, above the double \<open>0.15\<close>, and at \<open>2.05\<close> it is
  \<open>2.0999999999999996\<close>, below the double \<open>2.1\<close>.\<close>

lemma js_add_examples:
  "round_double 0.05 = 3602879701896397 / 72057594037927936"
  "js_add 10 (round_double 0.05) = 2828823515942093 / 281474976710656"
  "js_add 16 (round_double 0.05) = 4517673376206029 / 281474976710656"
  "js_add 30 (round_double 0.05) = 8458323050155213 / 281474976710656"
  "js_add 5 (round_double 0.01) = 2820379266640773 / 562949953421312"
  "js_add (round_double 0.1) (round_double 0.05) = 1351079888211149 / 9007199254740992"
  "round_double 0.15 < js_add (round_double 0.1) (round_double 0.05)"
  "js_add (round_double 2.05) (round_double 0.05) < round_double 2.1"
  by (simp_all add: double_defs)

section \<open>The segment resolver\<close>

text \<open>
  Claim C5. For every segment list and time \<open>t\<close> the resolver returns the first segment in
  list order whose interval contains \<open>t\<close>, both bounds inclusive: the segment at some index
  \<open>i\<close> contains \<open>t\<close> and no segment at a smaller index does, also when intervals overlap. It
  returns none exactly when no segment contains \<open>t\<close>. The resolver is a function of the
  list and the time alone: it reads and writes no session state, and equal arguments give
  equal results.
\<close>

theorem activeSegment_first_match:
  "(activeSegment segs t = Some g \<longleftrightarrow>
      (\<exists>i<length segs. segs ! i = g \<and> seg_start g \<le> t \<and> t \<le> seg_end g \<and>
         (\<forall>j<i. \<not> (seg_start (segs ! j) \<le> t \<and> t \<le> seg_end (segs ! j))))) \<and>
   (activeSegment segs t = None \<longleftrightarrow>
      (\<forall>g\<in>set segs. \<not> (seg_start g \<le> t \<and> t \<le> seg_end g)))"
  unfolding activeSegment_def by (auto simp: find_Some_iff find_None_iff)

text \<open>With the first example segment stretched to 70s the two segments overlap from 69s to
  70s; there, and on the inclusive bound 13s, the first one is returned.\<close>

theorem activeSegment_first_match_witness:
  "activeSegment [choice1\<lparr>seg_end := 70\<rparr>, choice2] 69 = Some (choice1\<lparr>seg_end := 70\<rparr>) \<and>
   activeSegment [choice1\<lparr>seg_end := 70\<rparr>, choice2] 13 = Some (choice1\<lparr>seg_end := 70\<rparr>) \<and>
   activeSegment [choice1\<lparr>seg_end := 70\<rparr>, choice2] 72 = Some choice2 \<and>
   activeSegment [choice1\<lparr>seg_end := 70\<rparr>, choice2] 5 = None"
proof -
  let ?segs = "[choice1\<lparr>seg_end := 70\<rparr>, choice2]"
  have a: "\<exists>i<length ?segs. ?segs ! i = choice1\<lparr>seg_end := 70\<rparr> \<and>
             seg_start (choice1\<lparr>seg_end := 70\<rparr>) \<le> 69 \<and>
             69 \<le> seg_end (choice1\<lparr>seg_end := 70\<rparr>) \<and>
             (\<forall>j<i. \<not> (seg_start (?segs ! j) \<le> 69 \<and> 69 \<le> seg_end (?segs ! j)))"
    by (rule exI [of _ 0]) (simp add: choice1_def)
  have b: "\<forall>g\<in>set ?segs. \<not> (seg_start g \<le> 5 \<and> 5 \<le> seg_end g)"
    by (simp add: choice1_def choice2_def)
  from a b activeSegment_first_match [of ?segs 69 "choice1\<lparr>seg_end := 70\<rparr>"]
    activeSegment_first_match [of ?segs 5]
  show ?thesis by (simp add: activeSegment_def choice1_def choice2_def)
qed

section \<open>The action dispatcher\<close>

text \<open>
  Claim C10. \<open>performAction\<close> leaves the whole session as it is (video element, state cells,
  event log and pending timeouts) when its argument is \<open>null\<close> or \<open>undefined\<close>, when it is
  a seek action without a numeric \<open>start\<close>, which includes the documented shape
  \<open>{type: 'seek', to: n}\<close>, and when it is a \<open>switchSource\<close> action without a \<open>sourceId\<close>.
\<close>

theorem performAction_noop:
  assumes "action = None \<or>
           (\<exists>a. action = Some a \<and> act_type a = ''seek'' \<and> act_start a = None) \<or>
           (\<exists>a. action = Some a \<and> act_type a = ''switchSource'' \<and> act_sourceId a = None)"
  shows "performAction action s = s"
  using assms by (auto simp: performAction_def truthy_str_def split: option.splits bool.splits)

text \<open>The \<open>defaultAction\<close> of the example segments, \<open>null\<close>, and a switch that names no
  source.\<close>

theorem performAction_noop_witness:
  "performAction (defaultAction choice1) (mount ''main'' exampleConfig loadedVideo) =
     mount ''main'' exampleConfig loadedVideo \<and>
   performAction None (mount ''main'' exampleConfig loadedVideo) =
     mount ''main'' exampleConfig loadedVideo \<and>
   performAction (Some ((switchTo [] (Some 3))\<lparr>act_sourceId := None\<rparr>))
       (mount ''main'' exampleConfig loadedVideo) =
     mount ''main'' exampleConfig loadedVideo"
  using performAction_noop [of "defaultAction choice1" "mount ''main'' exampleConfig loadedVideo"]
    performAction_noop [of None "mount ''main'' exampleConfig loadedVideo"]
    performAction_noop [of "Some ((switchTo [] (Some 3))\<lparr>act_sourceId := None\<rparr>)"
      "mount ''main'' exampleConfig loadedVideo"]
  by (simp add: choice1_def seekToShape_def switchTo_def)

text \<open>What \<open>seekTo\<close> computes, for a target that the sum with \<open>0.01\<close> does not fall below (as
  it never does for a double): the target clamped to \<open>[0, duration]\<close> when the duration is
  a number other than zero, and clamped below at \<open>0\<close> only when it is \<open>NaN\<close> or zero.\<close>

lemma seekTarget_cases:
  assumes "target \<le> js_add target (round_double 0.01)"
  shows "seekTarget target v =
           (case v_duration v of
              None \<Rightarrow> max 0 target
            | Some d \<Rightarrow> if d = 0 then max 0 target else max 0 (min d target))"
  using assms
  by (auto simp: seekTarget_def clamp_def truthy_num_def min_def max_def split: option.splits)

text \<open>A rejected \<open>play()\<close> is swallowed: the element stays paused or playing as it was.\<close>

lemma play_catch_cases:
  "play_catch v = (if v_playAllowed v then v\<lparr>v_paused := False\<rparr> else v)"
  by (simp add: play_catch_def play_def)


text \<open>
  Claim C1, as amended. Dispatching a \<open>switchSource\<close> action with a non-empty \<open>sourceId\<close>
  never fails and never consults the catalogue: \<open>currentSourceId\<close> becomes the requested
  id, the player is marked not ready, the deferred jump to \<open>startAt\<close> (default \<open>0\<close>) is
  scheduled and exactly one \<open>source.switch\<close> event is emitted, whatever the catalogue
  holds. For an id that is not in the catalogue, the source that is rendered afterwards is
  the first catalogue entry.
\<close>

theorem switchSource_unknown_id_accepted:
  assumes "act_type a = ''switchSource''" and "act_sourceId a = Some sid" and "sid \<noteq> []"
  shows "performAction (Some a) s =
           s\<lparr>currentSourceId := sid, ready := False,
             timeouts := timeouts s @ [case act_startAt a of None \<Rightarrow> 0 | Some x \<Rightarrow> x],
             events := events s @
               [SourceSwitch sid (case act_startAt a of None \<Rightarrow> 0 | Some x \<Rightarrow> x)]\<rparr> \<and>
         (sid \<notin> set (map src_id sources) \<longrightarrow>
            currentSource sources (performAction (Some a) s) =
              (case sources of [] \<Rightarrow> None | x # _ \<Rightarrow> Some x))"
proof -
  have eq: "performAction (Some a) s =
           s\<lparr>currentSourceId := sid, ready := False,
             timeouts := timeouts s @ [case act_startAt a of None \<Rightarrow> 0 | Some x \<Rightarrow> x],
             events := events s @
               [SourceSwitch sid (case act_startAt a of None \<Rightarrow> 0 | Some x \<Rightarrow> x)]\<rparr>"
    using assms by (simp add: performAction_def switchSource_def onEvent_def truthy_str_def)
  have "find (\<lambda>x. src_id x = sid) sources = None" if "sid \<notin> set (map src_id sources)"
    using that by (auto simp: find_None_iff)
  then show ?thesis
    unfolding eq by (simp add: currentSource_def)
qed

theorem switchSource_unknown_id_accepted_witness:
  "performAction (Some (switchTo ''altA'' (Some 3))) (initialPlayer ''main'' loadedVideo) =
     (initialPlayer ''main'' loadedVideo)\<lparr>currentSourceId := ''altA'', ready := False,
        timeouts := [3], events := [SourceSwitch ''altA'' 3]\<rparr> \<and>
   currentSource exampleSources
     (performAction (Some (switchTo ''altA'' (Some 3))) (initialPlayer ''main'' loadedVideo)) =
     Some \<lparr>src_id = ''main'', src_src = ''car.mp4''\<rparr>"
  using switchSource_unknown_id_accepted [of "switchTo ''altA'' (Some 3)" "''altA''"
      "initialPlayer ''main'' loadedVideo" exampleSources]
  by (simp add: switchTo_def exampleSources_def initialPlayer_def currentSource_def)

text \<open>The claim as first stated fails for the catalogue of \<open>App.jsx\<close>, which holds \<open>main\<close>
  only: a switch to \<open>altA\<close> changes \<open>currentSourceId\<close>, and the one event emitted is
  \<open>source.switch\<close>.\<close>

theorem unknown_source_counterexample:
  "''altA'' \<notin> set (map src_id exampleSources) \<and>
   currentSourceId (initialPlayer ''main'' loadedVideo) = ''main'' \<and>
   currentSourceId (performAction (Some (switchTo ''altA'' None))
                      (initialPlayer ''main'' loadedVideo)) = ''altA'' \<and>
   map event_type (events (performAction (Some (switchTo ''altA'' None))
                             (initialPlayer ''main'' loadedVideo))) = [''source.switch'']"
  by (simp add: run_defs example_defs)

section \<open>Construction\<close>

text \<open>
  Claim C6, as amended. Construction does not validate the configuration: for every
  initial source id, configuration and video element it yields the initial session, with
  the segment that contains time \<open>0\<close> entered if there is one, and reports nothing else.
  Duplicate ids, a segment with \<open>start >= end\<close> and a dangling \<open>sourceId\<close> are all accepted; a
  segment that ends before it starts is simply never the active one.
\<close>

theorem mount_accepts_every_config:
  "mount sid cfg v =
     (case activeSegment (segments cfg) 0 of
        None \<Rightarrow> initialPlayer sid v
      | Some g \<Rightarrow> (initialPlayer sid v)\<lparr>activeSegmentId := Some (seg_id g),
                     events := [SegmentEnter (seg_id g)]\<rparr>) \<and>
   (seg_end g' < seg_start g' \<longrightarrow> activeSegment (segments cfg) t \<noteq> Some g')"
proof -
  have "activeSegment segs t \<noteq> Some g'" if "seg_end g' < seg_start g'" for segs
    using that by (auto simp: activeSegment_def find_Some_iff)
  then show ?thesis
    by (simp add: mount_def segmentEffect_def initialPlayer_def onEvent_def truthy_str_def
        split: option.splits)
qed

theorem mount_accepts_every_config_witness:
  "mount ''main'' badConfig loadedVideo =
     (initialPlayer ''main'' loadedVideo)\<lparr>activeSegmentId := Some ''dup'',
        events := [SegmentEnter ''dup'']\<rparr> \<and>
   seg_end dupSecond < seg_start dupSecond \<and>
   activeSegment (segments badConfig) 5 \<noteq> Some dupSecond"
  using mount_accepts_every_config [of "''main''" badConfig loadedVideo dupSecond 5]
  by (simp add: activeSegment_def badConfig_def dupFirst_def dupSecond_def)

text \<open>The claim as first stated fails on \<open>badConfig\<close>: construction returns a running session,
  and the dangling switch is carried out when its hotspot is clicked.\<close>

theorem no_validation_counterexample:
  "seg_id dupFirst = seg_id dupSecond \<and>
   map hs_id (hotspots dupFirst) = [''x'', ''x''] \<and>
   seg_end dupSecond \<le> seg_start dupSecond \<and>
   map_option act_sourceId (hs_action ghostHotspot) = Some (Some ''ghost'') \<and>
   ''ghost'' \<notin> set (map src_id exampleSources) \<and>
   mount ''main'' badConfig loadedVideo =
     \<lparr>video = Some loadedVideo, currentSourceId = ''main'', ready = False, currentTime = 0,
      activeSegmentId = Some ''dup'', activeHotspot = None, loopCountBySeg = Map.empty,
      userChoseInSegment = False, showOverlays = True, events = [SegmentEnter ''dup''],
      timeouts = []\<rparr> \<and>
   run badConfig [Pointer 0] (mount ''main'' badConfig loadedVideo) =
     Inr \<lparr>video = Some loadedVideo, currentSourceId = ''ghost'', ready = False, currentTime = 0,
      activeSegmentId = Some ''dup'', activeHotspot = Some ghostHotspot,
      loopCountBySeg = Map.empty, userChoseInSegment = True, showOverlays = False,
      events = [SegmentEnter ''dup'', HotspotClick ''x'' (Some ''dup''),
                SourceSwitch ''ghost'' 0],
      timeouts = [0]\<rparr>"
  by (simp add: run_defs example_defs ghostHotspot_def dupFirst_def dupSecond_def badConfig_def)

section \<open>Loop counters\<close>

text \<open>Only the exit policy writes \<open>loopCountBySeg\<close>, and what it writes under the id of its
  segment is the value read there, or \<open>0\<close>, plus one.\<close>

lemma objectPrototype_text: "map_of objectPrototype key = Some t \<Longrightarrow> t \<noteq> []"
  by (auto simp: objectPrototype_def nativeFunction_def split: if_splits)

lemma counterGrew_refl: "counterKinds obj \<Longrightarrow> counterGrew key obj obj"
proof -
  assume k: "counterKinds obj"
  then have "case obj key of
               None \<Rightarrow> True
             | Some (JNum n) \<Rightarrow> map_of objectPrototype key = None
             | Some (JStr t) \<Rightarrow> map_of objectPrototype key \<noteq> None \<and> t \<noteq> []"
    unfolding counterKinds_def by blast
  then show ?thesis
    by (auto simp: counterGrew_def getProperty_def orZero_def
        split: option.splits jsval.splits dest: objectPrototype_text)
qed

lemma counterGrew_trans:
  "counterGrew key a b \<Longrightarrow> counterGrew key b c \<Longrightarrow> counterGrew key a c"
  by (auto simp: counterGrew_def split: option.splits)

lemma counterKinds_write:
  assumes "counterKinds obj"
  shows "counterKinds (obj(k \<mapsto> addOne (orZero (getProperty obj k))))"
proof -
  from assms have at: "case obj k of
               None \<Rightarrow> True
             | Some (JNum n) \<Rightarrow> map_of objectPrototype k = None
             | Some (JStr t) \<Rightarrow> map_of objectPrototype k \<noteq> None \<and> t \<noteq> []"
    unfolding counterKinds_def by blast
  have new: "case addOne (orZero (getProperty obj k)) of
               JNum n \<Rightarrow> map_of objectPrototype k = None
             | JStr t \<Rightarrow> map_of objectPrototype k \<noteq> None \<and> t \<noteq> []"
    using at
    by (auto simp: getProperty_def orZero_def addOne_def
        split: option.splits jsval.splits dest: objectPrototype_text)
  show ?thesis
    unfolding counterKinds_def
  proof
    fix key
    show "case (obj(k \<mapsto> addOne (orZero (getProperty obj k)))) key of
            None \<Rightarrow> True
          | Some (JNum n) \<Rightarrow> map_of objectPrototype key = None
          | Some (JStr t) \<Rightarrow> map_of objectPrototype key \<noteq> None \<and> t \<noteq> []"
    proof (cases "key = k")
      case True
      with new show ?thesis by (simp split: jsval.splits)
    next
      case False
      with assms show ?thesis unfolding counterKinds_def by simp
    qed
  qed
qed

lemma counterGrew_write:
  assumes "counterKinds obj"
  shows "counterGrew key obj (obj(k \<mapsto> addOne (orZero (getProperty obj k))))"
proof (cases "key = k")
  case False
  then have "getProperty (obj(k \<mapsto> addOne (orZero (getProperty obj k)))) key = getProperty obj key"
    by (simp add: getProperty_def)
  with counterGrew_refl [OF assms, of key] show ?thesis
    by (auto simp: counterGrew_def split: option.splits)
next
  case True
  from assms have at: "case obj k of
               None \<Rightarrow> True
             | Some (JNum n) \<Rightarrow> map_of objectPrototype k = None
             | Some (JStr t) \<Rightarrow> map_of objectPrototype k \<noteq> None \<and> t \<noteq> []"
    unfolding counterKinds_def by blast
  then show ?thesis
    unfolding True
    by (auto simp: counterGrew_def getProperty_def orZero_def addOne_def
        split: option.splits jsval.splits dest: objectPrototype_text)
qed

lemma loopCountBySeg_onEvent [simp]: "loopCountBySeg (onEvent e s) = loopCountBySeg s"
  by (simp add: onEvent_def)

lemma loopCountBySeg_seekTo [simp]: "loopCountBySeg (seekTo t s) = loopCountBySeg s"
  by (simp add: seekTo_def split: option.splits)

lemma loopCountBySeg_switchSource [simp]:
  "loopCountBySeg (switchSource sid st s) = loopCountBySeg s"
  by (simp add: switchSource_def)

lemma loopCountBySeg_performAction [simp]:
  "loopCountBySeg (performAction a s) = loopCountBySeg s"
  by (simp add: performAction_def split: option.splits bool.splits)

lemma loopCountBySeg_runTimeout [simp]: "loopCountBySeg (runTimeout s) = loopCountBySeg s"
  by (simp add: runTimeout_def split: option.splits list.splits)

lemma loopCountBySeg_onHotspotClick [simp]:
  "loopCountBySeg (onHotspotClick h seg s) = loopCountBySeg s"
  by (simp add: onHotspotClick_def Let_def)

lemma loopCountBySeg_chainedEffect:
  "chainedEffect s = Inr s' \<Longrightarrow> loopCountBySeg s' = loopCountBySeg s"
  by (auto simp: chainedEffect_def Let_def split: option.splits if_splits)

lemma loopCountBySeg_click:
  "click h seg s = Inr s' \<Longrightarrow> loopCountBySeg s' = loopCountBySeg s"
  by (auto simp: click_def Let_def split: if_splits dest: loopCountBySeg_chainedEffect)

lemma loopCountBySeg_pointerClick:
  "pointerClick cfg n s = Inr s' \<Longrightarrow> loopCountBySeg s' = loopCountBySeg s"
  by (auto simp: pointerClick_def split: if_splits dest: loopCountBySeg_click)

lemma loopCountBySeg_handleKey:
  "handleKey cfg c s = Inr s' \<Longrightarrow> loopCountBySeg s' = loopCountBySeg s"
  by (auto simp: handleKey_def split: option.splits dest: loopCountBySeg_pointerClick)

lemma loopCountBySeg_fadeClick:
  "fadeClick cfg i n s = Inr s' \<Longrightarrow> loopCountBySeg s' = loopCountBySeg s"
  by (auto simp: fadeClick_def Let_def split: if_splits dest: loopCountBySeg_click)

lemma loopCountBySeg_exitPolicy:
  "loopCountBySeg (exitPolicy seg s) = loopCountBySeg s \<or>
   loopCountBySeg (exitPolicy seg s) =
     (loopCountBySeg s)(seg_id seg \<mapsto> addOne (orZero (getProperty (loopCountBySeg s) (seg_id seg))))"
  by (simp add: exitPolicy_def loopCount_def Let_def)

lemma loopCountBySeg_segmentEffect:
  "loopCountBySeg (segmentEffect cfg s) = loopCountBySeg s \<or>
   (\<exists>k. loopCountBySeg (segmentEffect cfg s) =
          (loopCountBySeg s)(k \<mapsto> addOne (orZero (getProperty (loopCountBySeg s) k))))"
proof -
  have "loopCountBySeg (p\<lparr>activeSegmentId := None, showOverlays := False\<rparr>) = loopCountBySeg p"
    for p :: player
    by simp
  then show ?thesis
    using loopCountBySeg_exitPolicy [of _ s]
    by (auto simp: segmentEffect_def Let_def split: option.splits)
qed

lemma loopCountBySeg_step:
  assumes "step cfg i s = Inr s'"
  shows "loopCountBySeg s' = loopCountBySeg s \<or>
         (\<exists>k. loopCountBySeg s' =
                (loopCountBySeg s)(k \<mapsto> addOne (orZero (getProperty (loopCountBySeg s) k))))"
proof (cases i)
  case TimeUpdate
  show ?thesis
  proof (cases "video s")
    case None
    with assms TimeUpdate show ?thesis by (simp add: step_def onTimeUpdate_def)
  next
    case (Some v)
    show ?thesis
    proof (cases "v_currentTime v = currentTime s")
      case True
      with Some assms TimeUpdate show ?thesis by (simp add: step_def onTimeUpdate_def)
    next
      case False
      with Some assms TimeUpdate obtain s1 where
        c: "chainedEffect (s\<lparr>currentTime := v_currentTime v\<rparr>) = Inr s1" and
        e: "s' = segmentEffect cfg s1"
        by (auto simp: step_def onTimeUpdate_def split: sum.splits)
      from c have "loopCountBySeg s1 = loopCountBySeg s"
        by (auto dest: loopCountBySeg_chainedEffect)
      with e loopCountBySeg_segmentEffect [of cfg s1] show ?thesis by simp
    qed
  qed
next
  case LoadedMetadata
  with assms show ?thesis by (auto simp: step_def)
next
  case (Pointer n)
  with assms show ?thesis by (auto simp: step_def dest: loopCountBySeg_pointerClick)
next
  case (KeyDown c)
  with assms show ?thesis by (auto simp: step_def dest: loopCountBySeg_handleKey)
next
  case (FadeClick j n)
  with assms show ?thesis by (auto simp: step_def dest: loopCountBySeg_fadeClick)
next
  case Timeout
  with assms show ?thesis by (auto simp: step_def)
next
  case (Playhead t)
  with assms show ?thesis by (auto simp: step_def)
qed

lemma counter_run:
  assumes "run cfg inputs s = Inr s'" and "counterKinds (loopCountBySeg s)"
  shows "counterKinds (loopCountBySeg s') \<and> counterGrew key (loopCountBySeg s) (loopCountBySeg s')"
  using assms
proof (induction inputs arbitrary: s)
  case Nil
  then show ?case by (simp add: counterGrew_refl)
next
  case (Cons i inputs)
  then obtain s1 where a: "step cfg i s = Inr s1" and b: "run cfg inputs s1 = Inr s'"
    by (auto split: sum.splits)
  from loopCountBySeg_step [OF a] Cons.prems(2)
  have one: "counterKinds (loopCountBySeg s1) \<and>
             counterGrew key (loopCountBySeg s) (loopCountBySeg s1)"
    by (auto simp: counterGrew_refl counterKinds_write counterGrew_write)
  with Cons.IH [OF b] show ?case
    by (blast intro: counterGrew_trans)
qed

lemma counterKinds_mount: "counterKinds (loopCountBySeg (mount sid cfg v))"
  by (simp add: mount_def segmentEffect_def initialPlayer_def onEvent_def truthy_str_def
      counterKinds_def split: option.splits)

text \<open>
  Claim C8. Take any two moments of a session, the later one reached from the earlier one
  by any sequence of operations of the mounted player: time updates, loaded metadata,
  pointer and key input, clicks on a fading overlay, pending timeouts and changes of the
  playback position. For every segment id, the loop count read at the later moment
  (\<open>loopCountBySeg[id] || 0\<close>) is not below the one read at the earlier moment and has not
  been reset. Under an ordinary id both are numbers, the later one at least the earlier
  one. Under an id that names a member every plain object inherits (\<open>constructor\<close>,
  \<open>toString\<close>, ...) the count is a text from the start, and the later text is the earlier
  one, possibly with more appended.
\<close>

theorem loopCount_monotone:
  assumes "run cfg earlier (mount sid0 cfg v) = Inr s" and "run cfg later s = Inr s'"
  shows "case map_of objectPrototype sid of
           None \<Rightarrow> (\<exists>m n. loopCount s sid = JNum m \<and> loopCount s' sid = JNum n \<and> m \<le> n)
         | Some _ \<Rightarrow> (\<exists>x y. loopCount s sid = JStr x \<and> loopCount s' sid = JStr (x @ y))"
proof -
  from counter_run [OF assms(1) counterKinds_mount] have "counterKinds (loopCountBySeg s)"
    by simp
  from counter_run [OF assms(2) this, of sid] show ?thesis
    by (auto simp: counterGrew_def loopCount_def split: option.splits)
qed

text \<open>The example configuration played from 10s past the end of its first segment: the
  count of \<open>choice-1\<close> goes from 0 to 1.\<close>

theorem loopCount_monotone_witness:
  "run exampleConfig [Playhead 10, TimeUpdate] (mount ''main'' exampleConfig loadedVideo) =
     Inr ((mount ''main'' exampleConfig loadedVideo)
            \<lparr>video := Some (loadedVideo\<lparr>v_currentTime := 10\<rparr>), currentTime := 10,
             activeSegmentId := Some ''choice-1'', events := [SegmentEnter ''choice-1'']\<rparr>) \<and>
   run exampleConfig [Playhead 13.2, TimeUpdate]
       ((mount ''main'' exampleConfig loadedVideo)
            \<lparr>video := Some (loadedVideo\<lparr>v_currentTime := 10\<rparr>), currentTime := 10,
             activeSegmentId := Some ''choice-1'', events := [SegmentEnter ''choice-1'']\<rparr>) =
     Inr \<lparr>video = Some (loadedVideo\<lparr>v_currentTime := 10\<rparr>), currentSourceId = ''main'',
          ready = False, currentTime = 13.2, activeSegmentId = None, activeHotspot = None,
          loopCountBySeg = [''choice-1'' \<mapsto> JNum 1], userChoseInSegment = False,
          showOverlays = False,
          events = [SegmentEnter ''choice-1'', SegmentLoop ''choice-1'' (JNum 1)],
          timeouts = []\<rparr> \<and>
   loopCount ((mount ''main'' exampleConfig loadedVideo)
            \<lparr>video := Some (loadedVideo\<lparr>v_currentTime := 10\<rparr>), currentTime := 10,
             activeSegmentId := Some ''choice-1'', events := [SegmentEnter ''choice-1'']\<rparr>)
       ''choice-1'' = JNum 0 \<and>
   (\<exists>m n. loopCount ((mount ''main'' exampleConfig loadedVideo)
            \<lparr>video := Some (loadedVideo\<lparr>v_currentTime := 10\<rparr>), currentTime := 10,
             activeSegmentId := Some ''choice-1'', events := [SegmentEnter ''choice-1'']\<rparr>)
       ''choice-1'' = JNum m \<and>
     loopCount \<lparr>video = Some (loadedVideo\<lparr>v_currentTime := 10\<rparr>), currentSourceId = ''main'',
          ready = False, currentTime = 13.2, activeSegmentId = None, activeHotspot = None,
          loopCountBySeg = [''choice-1'' \<mapsto> JNum 1], userChoseInSegment = False,
          showOverlays = False,
          events = [SegmentEnter ''choice-1'', SegmentLoop ''choice-1'' (JNum 1)],
          timeouts = []\<rparr> ''choice-1'' = JNum n \<and> m \<le> n)"
proof -
  let ?s = "(mount ''main'' exampleConfig loadedVideo)
            \<lparr>video := Some (loadedVideo\<lparr>v_currentTime := 10\<rparr>), currentTime := 10,
             activeSegmentId := Some ''choice-1'', events := [SegmentEnter ''choice-1'']\<rparr>"
  let ?s' = "\<lparr>video = Some (loadedVideo\<lparr>v_currentTime := 10\<rparr>), currentSourceId = ''main'',
          ready = False, currentTime = 13.2, activeSegmentId = None, activeHotspot = None,
          loopCountBySeg = [''choice-1'' \<mapsto> JNum 1], userChoseInSegment = False,
          showOverlays = False,
          events = [SegmentEnter ''choice-1'', SegmentLoop ''choice-1'' (JNum 1)],
          timeouts = []\<rparr>"
  have r1: "run exampleConfig [Playhead 10, TimeUpdate]
              (mount ''main'' exampleConfig loadedVideo) = Inr ?s"
    by (simp add: run_defs example_defs)
  have r2: "run exampleConfig [Playhead 13.2, TimeUpdate] ?s = Inr ?s'"
    by (simp add: run_defs example_defs)
  have z: "loopCount ?s ''choice-1'' = JNum 0"
    by (simp add: run_defs example_defs)
  have n: "map_of objectPrototype ''choice-1'' = None"
    by (simp add: objectPrototype_def)
  from loopCount_monotone [OF r1 r2, of "''choice-1''"] n
  have "\<exists>m n. loopCount ?s ''choice-1'' = JNum m \<and> loopCount ?s' ''choice-1'' = JNum n \<and> m \<le> n"
    by simp
  with r1 r2 z show ?thesis by blast
qed

text \<open>A segment called \<open>constructor\<close>: what is read under its id before the first loop is the
  inherited member, so the count is a text, each exit appends a \<open>1\<close> to it, \<open>maxLoops\<close> is
  never reached and every exit seeks back to the start.\<close>

lemma inherited_key_counter_is_text:
  "run constructorConfig
       [Playhead 12, TimeUpdate, Playhead 14, TimeUpdate, TimeUpdate, Playhead 14, TimeUpdate]
       (mount ''main'' constructorConfig loadedVideo) =
     Inr \<lparr>video = Some (loadedVideo\<lparr>v_currentTime := 10\<rparr>), currentSourceId = ''main'',
          ready = False, currentTime = 14, activeSegmentId = None, activeHotspot = None,
          loopCountBySeg = [''constructor'' \<mapsto> JStr ''function Object() { [native code] }11''],
          userChoseInSegment = False, showOverlays = False,
          events = [SegmentEnter ''constructor'',
                    SegmentLoop ''constructor'' (JStr ''function Object() { [native code] }1''),
                    SegmentEnter ''constructor'',
                    SegmentLoop ''constructor'' (JStr ''function Object() { [native code] }11'')],
          timeouts = []\<rparr>"
  by (simp add: run_defs example_defs constructorConfig_def)

section \<open>The exit policy\<close>

text \<open>
  What the policy does for a segment that requires a choice and loops, when none was made:
  it counts one loop and emits \<open>segment.loop\<close>; then it seeks back to the start of the
  segment, unless \<open>maxLoops\<close> is reached and a default action is there, in which case it
  hands the default action to \<open>performAction\<close> and emits \<open>segment.autoselect\<close>. In every
  other case it does nothing. Once an exit into no segment has been handled, further time
  updates outside every segment change nothing.
\<close>

lemma exitPolicy_loop:
  assumes "requireChoice seg" and "loopOnNoChoice seg" and "\<not> userChoseInSegment s"
    and "maxLoops seg = None \<or> defaultAction seg = None \<or>
         (\<exists>m. maxLoops seg = Some m \<and> \<not> reachesMax (addOne (loopCount s (seg_id seg))) m)"
  shows "exitPolicy seg s =
           seekTo (seg_start seg)
             (onEvent (SegmentLoop (seg_id seg) (addOne (loopCount s (seg_id seg))))
                (s\<lparr>loopCountBySeg :=
                     (loopCountBySeg s)(seg_id seg \<mapsto> addOne (loopCount s (seg_id seg)))\<rparr>))"
  using assms by (auto simp: exitPolicy_def Let_def split: option.splits)

lemma exitPolicy_autoselect:
  assumes "requireChoice seg" and "loopOnNoChoice seg" and "\<not> userChoseInSegment s"
    and "maxLoops seg = Some m" and "reachesMax (addOne (loopCount s (seg_id seg))) m"
    and "defaultAction seg = Some a"
  shows "exitPolicy seg s =
           onEvent (SegmentAutoselect (seg_id seg))
             (performAction (Some a)
                (onEvent (SegmentLoop (seg_id seg) (addOne (loopCount s (seg_id seg))))
                   (s\<lparr>loopCountBySeg :=
                        (loopCountBySeg s)(seg_id seg \<mapsto> addOne (loopCount s (seg_id seg)))\<rparr>)))"
  using assms by (simp add: exitPolicy_def Let_def)

lemma exitPolicy_skip:
  "userChoseInSegment s \<or> \<not> requireChoice seg \<or> \<not> loopOnNoChoice seg \<Longrightarrow> exitPolicy seg s = s"
  by (auto simp: exitPolicy_def)

lemma segmentEffect_exit_once:
  assumes "activeSegment (segments cfg) (currentTime s) = None"
    and "activeSegment (segments cfg) t = None"
  shows "segmentEffect cfg ((segmentEffect cfg s)\<lparr>currentTime := t\<rparr>) =
           (segmentEffect cfg s)\<lparr>currentTime := t\<rparr>"
  using assms by (simp add: segmentEffect_def truthy_str_def Let_def split: option.splits)

text \<open>
  Claim C2, evaluated on the example configuration with \<open>maxLoops: 2\<close>. Playback enters
  \<open>choice-1\<close> at 10s and runs past its end at 13.2s twice, with no choice made. The first
  exit counts 1, emits \<open>segment.loop\<close> and seeks back to 10s. The second exit counts 2,
  emits \<open>segment.loop\<close> and \<open>segment.autoselect\<close> and dispatches the default action
  \<open>{type: 'seek', to: 14}\<close>, which \<open>performAction\<close> ignores: the position stays at 13.2s and
  never becomes 14s. With the same default action written \<open>{type: 'seek', start: 14}\<close> the
  same run ends at 14s.
\<close>

theorem default_action_to_shape_not_dispatched:
  "run exampleConfigMaxLoops
       [Playhead 10, TimeUpdate, Playhead 13.2, TimeUpdate, TimeUpdate, Playhead 13.2, TimeUpdate]
       (mount ''main'' exampleConfigMaxLoops loadedVideo) =
     Inr \<lparr>video = Some (loadedVideo\<lparr>v_currentTime := 13.2\<rparr>), currentSourceId = ''main'',
          ready = False, currentTime = 13.2, activeSegmentId = None, activeHotspot = None,
          loopCountBySeg = [''choice-1'' \<mapsto> JNum 2], userChoseInSegment = False,
          showOverlays = False,
          events = [SegmentEnter ''choice-1'', SegmentLoop ''choice-1'' (JNum 1),
                    SegmentEnter ''choice-1'', SegmentLoop ''choice-1'' (JNum 2),
                    SegmentAutoselect ''choice-1''],
          timeouts = []\<rparr> \<and>
   run \<lparr>segments = [choice1\<lparr>maxLoops := Some 2, defaultAction := Some (seekStart 14 None)\<rparr>,
                    choice2]\<rparr>
       [Playhead 10, TimeUpdate, Playhead 13.2, TimeUpdate, TimeUpdate, Playhead 13.2, TimeUpdate]
       (mount ''main''
          \<lparr>segments = [choice1\<lparr>maxLoops := Some 2, defaultAction := Some (seekStart 14 None)\<rparr>,
                       choice2]\<rparr>
          loadedVideo) =
     Inr \<lparr>video = Some (loadedVideo\<lparr>v_currentTime := 14\<rparr>), currentSourceId = ''main'',
          ready = False, currentTime = 13.2, activeSegmentId = None, activeHotspot = None,
          loopCountBySeg = [''choice-1'' \<mapsto> JNum 2], userChoseInSegment = False,
          showOverlays = False,
          events = [SegmentEnter ''choice-1'', SegmentLoop ''choice-1'' (JNum 1),
                    SegmentEnter ''choice-1'', SegmentLoop ''choice-1'' (JNum 2),
                    SegmentAutoselect ''choice-1''],
          timeouts = []\<rparr>"
  by (simp add: run_defs example_defs exampleConfigMaxLoops_def numeral_2_eq_2)

text \<open>
  Claim C3, evaluated on two adjacent segments. Segment \<open>a\<close> (10s to 13s) requires a choice
  and loops; segment \<open>b\<close> begins at 13s. Playback goes from 12s to 14s with no choice made.
  The resolver returns \<open>b\<close> while \<open>a\<close> is the tracked segment, the effect takes its entry
  branch, and the exit policy of \<open>a\<close> is not evaluated at all: no loop is counted, no
  \<open>segment.loop\<close> is emitted and the position stays at 14s. Without \<open>b\<close> the same two time
  updates evaluate the policy once: one loop is counted and playback is sent back to 10s.
\<close>

theorem exit_policy_skipped_between_segments:
  "run \<lparr>segments = [segA, segB]\<rparr> [Playhead 12, TimeUpdate, Playhead 14, TimeUpdate]
       (mount ''main'' \<lparr>segments = [segA, segB]\<rparr> loadedVideo) =
     Inr \<lparr>video = Some (loadedVideo\<lparr>v_currentTime := 14\<rparr>), currentSourceId = ''main'',
          ready = False, currentTime = 14, activeSegmentId = Some ''b'', activeHotspot = None,
          loopCountBySeg = Map.empty, userChoseInSegment = False, showOverlays = True,
          events = [SegmentEnter ''a'', SegmentEnter ''b''], timeouts = []\<rparr> \<and>
   run \<lparr>segments = [segA]\<rparr> [Playhead 12, TimeUpdate, Playhead 14, TimeUpdate]
       (mount ''main'' \<lparr>segments = [segA]\<rparr> loadedVideo) =
     Inr \<lparr>video = Some (loadedVideo\<lparr>v_currentTime := 10\<rparr>), currentSourceId = ''main'',
          ready = False, currentTime = 14, activeSegmentId = None, activeHotspot = None,
          loopCountBySeg = [''a'' \<mapsto> JNum 1], userChoseInSegment = False, showOverlays = False,
          events = [SegmentEnter ''a'', SegmentLoop ''a'' (JNum 1)], timeouts = []\<rparr>"
  by (simp add: run_defs example_defs segA_def segB_def)

section \<open>The chained boundary watch\<close>

text \<open>
  A time update at a time beyond \<open>end + 0.05\<close>, the sum taken in doubles, clears a pending
  watch and seeks to \<open>onEnd\<close>; a time update at or before it leaves the watch pending; the
  click handler sets the watch and the choice flag.
\<close>

lemma boundary_watch_fires:
  assumes "activeHotspot s = Some h" and "hs_action h = Some a" and "act_end a = Some e"
    and "e \<noteq> 0" and "hs_onEnd h = Some target" and "video s = Some v"
    and "v_currentTime v \<noteq> currentTime s"
    and "js_add e (round_double 0.05) < v_currentTime v"
  shows "onTimeUpdate cfg s =
           Inr (segmentEffect cfg
                  (seekTo target (s\<lparr>currentTime := v_currentTime v, activeHotspot := None\<rparr>)))"
  using assms by (simp add: onTimeUpdate_def chainedEffect_def Let_def)

lemma boundary_watch_waits:
  assumes "activeHotspot s = Some h" and "hs_action h = Some a" and "act_end a = Some e"
    and "video s = Some v" and "v_currentTime v \<le> js_add e (round_double 0.05)"
  shows "\<exists>s'. onTimeUpdate cfg s = Inr s' \<and> activeHotspot s' = Some h"
proof -
  have seg: "activeHotspot (segmentEffect cfg p) = activeHotspot p" for p
    by (auto simp: segmentEffect_def exitPolicy_def performAction_def seekTo_def switchSource_def
        onEvent_def Let_def split: option.splits bool.splits)
  show ?thesis
    using assms by (simp add: onTimeUpdate_def chainedEffect_def seg)
qed

text \<open>At range end \<open>0.1\<close> the sum is the double \<open>0.15000000000000002\<close>: a current time equal to
  it leaves the watch pending, the next double above it fires the watch.\<close>

lemma boundary_watch_in_doubles:
  "chainedEffect
     ((initialPlayer ''main'' loadedVideo)
        \<lparr>activeHotspot := Some (toA1\<lparr>hs_action := Some (seekStart 14 (Some (round_double 0.1)))\<rparr>),
         currentTime := 1351079888211149 / 9007199254740992\<rparr>) =
     Inr ((initialPlayer ''main'' loadedVideo)
        \<lparr>activeHotspot := Some (toA1\<lparr>hs_action := Some (seekStart 14 (Some (round_double 0.1)))\<rparr>),
         currentTime := 1351079888211149 / 9007199254740992\<rparr>) \<and>
   chainedEffect
     ((initialPlayer ''main'' loadedVideo)
        \<lparr>activeHotspot := Some (toA1\<lparr>hs_action := Some (seekStart 14 (Some (round_double 0.1)))\<rparr>),
         currentTime := 1351079888211150 / 9007199254740992\<rparr>) =
     Inr ((initialPlayer ''main'' loadedVideo)
        \<lparr>video := Some (loadedVideo\<lparr>v_currentTime := 67\<rparr>),
         currentTime := 1351079888211150 / 9007199254740992\<rparr>)"
  by (simp add: run_defs example_defs)

lemma onHotspotClick_sets_watch:
  "activeHotspot (onHotspotClick h seg s) = Some h \<and>
   userChoseInSegment (onHotspotClick h seg s)"
  by (simp add: onHotspotClick_def Let_def performAction_def seekTo_def switchSource_def
      onEvent_def split: option.splits bool.splits)

text \<open>
  Claim C4, evaluated on a ranged seek that jumps backwards. The hotspot \<open>replay\<close> (seek to
  5s, range end 10s, then 30s) is clicked at 22s. The handler seeks to 5s and sets the
  watch; the render that follows runs the watch with the \<open>currentTime\<close> cell still at 22s,
  which is beyond 10.05s, so the watch is cleared and the seek to 30s is executed at once,
  before any time update: the range from 5s to 10s is never played. When the click comes
  before the range end, as for \<open>toA\<close> of the example configuration clicked at 11s, the
  position is 14s and the watch stays pending.
\<close>

theorem boundary_watch_fires_on_stale_time:
  "run replayConfig [Playhead 22, TimeUpdate, Pointer 0] (mount ''main'' replayConfig loadedVideo) =
     Inr \<lparr>video = Some (loadedVideo\<lparr>v_currentTime := 30\<rparr>), currentSourceId = ''main'',
          ready = False, currentTime = 22, activeSegmentId = Some ''recap'',
          activeHotspot = None, loopCountBySeg = Map.empty, userChoseInSegment = True,
          showOverlays = False,
          events = [SegmentEnter ''recap'', HotspotClick ''replay'' (Some ''recap'')],
          timeouts = []\<rparr> \<and>
   run exampleConfig [Playhead 11, TimeUpdate, Pointer 0] (mount ''main'' exampleConfig loadedVideo) =
     Inr \<lparr>video = Some (loadedVideo\<lparr>v_currentTime := 14\<rparr>), currentSourceId = ''main'',
          ready = False, currentTime = 11, activeSegmentId = Some ''choice-1'',
          activeHotspot = Some toA1, loopCountBySeg = Map.empty, userChoseInSegment = True,
          showOverlays = False,
          events = [SegmentEnter ''choice-1'', HotspotClick ''toA'' (Some ''choice-1'')],
          timeouts = []\<rparr>"
  by (simp add: run_defs example_defs replayHotspot_def replayConfig_def)




end
